theory Spec2Isabelle
  imports Main "HOL-Library.Multiset"
begin

section \<open>Opvera: the points and leaderboard functions of supabase.sql\<close>

text \<open>
  The development embeds the PL/pgSQL functions of \<^verbatim>\<open>supabase.sql\<close> that compute a
  user's points and maintain the \<^verbatim>\<open>leaderboard\<close> table, the triggers that call them and the
  row-level-security policies that their statements meet.

  Conventions of the embedding.
  \<^item> A table is the list of its rows; a row is a record of the columns that some function,
    trigger or policy of the file reads or writes (the other columns are left out).
  \<^item> A nullable column has an \<open>option\<close> type, \<open>None\<close> being SQL's NULL. A condition of a
    \<^verbatim>\<open>WHERE\<close> clause is three-valued (\<open>bool option\<close>) and keeps a row only when it is true.
  \<^item> A function or statement returns a value of type \<open>sqlstate + 'a\<close>: \<open>Inl e\<close> is the exception
    with SQLSTATE \<open>e\<close>. An exception aborts the statement that called the function or fired
    the trigger, and the database is then as it was before that statement.
  \<^item> PL/pgSQL analyses a statement of a function body when the statement is first executed:
    every identifier is resolved and every operator is looked up by the types of its
    operands. A statement that fails there raises before it reads any row, whatever the
    tables hold. After the analysis the policies of the tables it reads or writes are
    added; only then are rows read. The model of each statement follows this order.
  \<^item> A value stored in an \<^verbatim>\<open>INTEGER\<close> variable or column is in the range of the type, or
    the assignment raises.
  \<^item> \<^verbatim>\<open>NOW()\<close> is the start time of the current transaction; it is a parameter of every
    function that reads it. So is the order in which the executor delivers rows that the
    statement's \<^verbatim>\<open>ORDER BY\<close> does not tell apart.
\<close>

subsection \<open>Schema\<close>

type_synonym uuid = nat
type_synonym timestamptz = nat

text \<open>Table \<^verbatim>\<open>users\<close> (lines 9-22).\<close>

record users_row =
  users_id :: uuid
  users_auth_uid :: string
  users_role :: string

definition users_columns :: "string list" where
  "users_columns =
     [''id'', ''auth_uid'', ''role'', ''display_name'', ''email'', ''avatar_url'', ''bio'',
      ''skills'', ''socials'', ''banned'', ''created_at'', ''updated_at'']"

text \<open>Table \<^verbatim>\<open>projects\<close> (lines 41-54): \<^verbatim>\<open>tags TEXT[] DEFAULT '{}'\<close> and
  \<^verbatim>\<open>verified BOOLEAN DEFAULT FALSE\<close> are nullable.\<close>

record projects_row =
  projects_id :: uuid
  projects_owner_id :: uuid
  projects_tags :: "string list option"
  projects_verified :: "bool option"

definition projects_columns :: "string list" where
  "projects_columns =
     [''id'', ''owner_id'', ''title'', ''description'', ''files'', ''github_url'', ''tags'',
      ''points_awarded'', ''verified'', ''mentor_notes'', ''created_at'', ''updated_at'']"

text \<open>Table \<^verbatim>\<open>assignments\<close> (lines 57-67).\<close>

record assignments_row =
  assignments_id :: uuid
  assignments_student_id :: uuid
  assignments_submission_url :: "string option"

definition assignments_columns :: "string list" where
  "assignments_columns =
     [''id'', ''student_id'', ''title'', ''submission_url'', ''points'', ''verified'',
      ''mentor_notes'', ''created_at'', ''updated_at'']"

text \<open>A JSON value as far as the functions look at one: an element of
  \<^verbatim>\<open>quiz_attempts.answers\<close> is a number (the index of the chosen option) or something else.\<close>

datatype jsonb = JNull | JNumber int | JString string

text \<open>An element of \<^verbatim>\<open>quizzes.questions\<close>, \<^verbatim>\<open>{question, options, correctIndex, explanation}\<close>.
  \<open>correctIndex\<close> is the value of \<^verbatim>\<open>(question->>'correctIndex')::integer\<close>: NULL when the key
  is missing or holds JSON null. The questions of the model hold an integer there or
  nothing, and the answers of an attempt are a JSON array or NULL.\<close>

record question =
  question_text :: string
  options :: "string list"
  correctIndex :: "int option"

text \<open>Table \<^verbatim>\<open>quizzes\<close> (lines 93-105), alias \<^verbatim>\<open>q\<close>; \<^verbatim>\<open>questions JSONB NOT NULL\<close>.\<close>

record quizzes_row =
  q_id :: uuid
  q_created_by :: uuid
  q_questions :: "question list"

text \<open>Table \<^verbatim>\<open>quiz_attempts\<close> (lines 108-119), alias \<^verbatim>\<open>qa\<close>; \<^verbatim>\<open>answers\<close> and
  \<^verbatim>\<open>completed_at\<close> are nullable.\<close>

record quiz_attempts_row =
  qa_id :: uuid
  qa_quiz_id :: uuid
  qa_student_id :: uuid
  qa_answers :: "jsonb list option"
  qa_completed_at :: "timestamptz option"

text \<open>Table \<^verbatim>\<open>leaderboard\<close> (lines 122-128). \<^verbatim>\<open>breakdown\<close> is a JSON object, kept as the
  list of its key/value pairs. The rows of the model have a \<^verbatim>\<open>total_points\<close> that is not
  NULL.\<close>

record leaderboard_row =
  lb_user_id :: uuid
  lb_total_points :: int
  lb_breakdown :: "(string \<times> int) list"
  lb_rank :: "int option"
  lb_updated_at :: timestamptz

definition leaderboard_columns :: "string list" where
  "leaderboard_columns = [''user_id'', ''total_points'', ''breakdown'', ''rank'', ''updated_at'']"

record database =
  users :: "users_row list"
  projects :: "projects_row list"
  assignments :: "assignments_row list"
  quizzes :: "quizzes_row list"
  quiz_attempts :: "quiz_attempts_row list"
  leaderboard :: "leaderboard_row list"

subsection \<open>Exceptions\<close>

text \<open>
  The conditions that the statements of the file can raise, under PostgreSQL's names:
  \<^verbatim>\<open>42883\<close> (no operator or function for the given argument types), \<^verbatim>\<open>42702\<close> (an identifier
  that is both a column and a PL/pgSQL variable), \<^verbatim>\<open>42703\<close> (no such column or record
  field), \<^verbatim>\<open>42P17\<close> (infinite recursion in a policy), \<^verbatim>\<open>42501\<close> (a row refused by a policy
  check), \<^verbatim>\<open>23505\<close>, \<^verbatim>\<open>23503\<close>, \<^verbatim>\<open>23502\<close> (a primary key, a foreign key, a \<^verbatim>\<open>NOT NULL\<close>
  column) and \<^verbatim>\<open>22003\<close> (integer out of range).
\<close>

datatype sqlstate =
  undefined_function
| ambiguous_column
| undefined_column
| invalid_object_definition
| insufficient_privilege
| unique_violation
| foreign_key_violation
| not_null_violation
| numeric_value_out_of_range

subsection \<open>SQL expressions\<close>

definition is_true :: "bool option \<Rightarrow> bool" where
  "is_true c = (c = Some True)"

text \<open>\<^verbatim>\<open>a AND b\<close> in three-valued logic.\<close>

definition sql_and :: "bool option \<Rightarrow> bool option \<Rightarrow> bool option" where
  "sql_and a b =
     (if a = Some False \<or> b = Some False then Some False
      else if a = Some True \<and> b = Some True then Some True
      else None)"

text \<open>\<^verbatim>\<open>a = b\<close> for operands of one type: NULL as soon as one side is NULL.\<close>

definition sql_eq :: "'a option \<Rightarrow> 'a option \<Rightarrow> bool option" where
  "sql_eq a b = (case a of None \<Rightarrow> None | Some x \<Rightarrow> (case b of None \<Rightarrow> None | Some y \<Rightarrow> Some (x = y)))"

text \<open>\<^verbatim>\<open>x = ANY(arr)\<close> for an array without NULL elements.\<close>

definition eq_any :: "string \<Rightarrow> string list option \<Rightarrow> bool option" where
  "eq_any x arr = (case arr of None \<Rightarrow> None | Some xs \<Rightarrow> Some (x \<in> set xs))"

definition COUNT :: "'a list \<Rightarrow> int" where
  "COUNT rows = int (length rows)"

text \<open>\<^verbatim>\<open>SUM\<close> over no row at all is NULL.\<close>

definition sql_SUM :: "int list \<Rightarrow> int option" where
  "sql_SUM xs = (if xs = [] then None else Some (sum_list xs))"

fun COALESCE :: "'a option list \<Rightarrow> 'a option" where
  "COALESCE [] = None"
| "COALESCE (None # xs) = COALESCE xs"
| "COALESCE (Some x # xs) = Some x"

definition COALESCE_or :: "'a option \<Rightarrow> 'a \<Rightarrow> 'a" where
  "COALESCE_or x d = (case x of None \<Rightarrow> d | Some v \<Rightarrow> v)"

text \<open>\<^verbatim>\<open>jsonb_array_elements(a) WITH ORDINALITY\<close>: the elements with their positions, from 1.
  A NULL argument gives no row.\<close>

definition jsonb_array_elements :: "'a list option \<Rightarrow> 'a list" where
  "jsonb_array_elements a = (case a of None \<Rightarrow> [] | Some xs \<Rightarrow> xs)"

definition WITH_ORDINALITY :: "'a list \<Rightarrow> ('a \<times> nat) list" where
  "WITH_ORDINALITY xs = zip xs [1..<Suc (length xs)]"

text \<open>The cast to \<^verbatim>\<open>INTEGER\<close> of a value that is assigned to an \<^verbatim>\<open>INTEGER\<close> variable or
  column (PostgreSQL's function \<^verbatim>\<open>int4\<close>), and the sum of \<^verbatim>\<open>INTEGER\<close> values from left to
  right.\<close>

definition int4 :: "int \<Rightarrow> sqlstate + int" where
  "int4 n = (if - 2147483648 \<le> n \<and> n \<le> 2147483647 then Inr n else Inl numeric_value_out_of_range)"

fun int4_sum :: "int \<Rightarrow> int list \<Rightarrow> sqlstate + int" where
  "int4_sum a [] = Inr a"
| "int4_sum a (b # bs) = (case int4 (a + b) of Inl e \<Rightarrow> Inl e | Inr c \<Rightarrow> int4_sum c bs)"

subsection \<open>The analysis of a statement\<close>

text \<open>
  The types of the operands that the file compares, and a value of one of them.
\<close>

datatype sql_type = UUID | INTEGER | BIGINT | TEXT | JSONB | BOOLEAN

datatype datum =
  uuid_datum uuid
| integer_datum int
| text_datum string
| jsonb_datum jsonb
| boolean_datum bool

text \<open>
  The operator \<^verbatim>\<open>=\<close> for operands of the given types, as the catalogue \<^verbatim>\<open>pg_operator\<close> has it:
  each of the types has an equality with itself, and \<^verbatim>\<open>integer\<close> and \<^verbatim>\<open>bigint\<close> have
  equalities with each other. No cast between \<^verbatim>\<open>jsonb\<close> and \<^verbatim>\<open>integer\<close> is implicit, so for
  operands of these two types no candidate is found: \<^verbatim>\<open>operator does not exist\<close>.
\<close>

definition operator_eq ::
  "sql_type \<Rightarrow> sql_type \<Rightarrow> sqlstate + (datum option \<Rightarrow> datum option \<Rightarrow> bool option)" where
  "operator_eq left right =
     (if left = right \<or> (left \<in> {INTEGER, BIGINT} \<and> right \<in> {INTEGER, BIGINT})
      then Inr sql_eq
      else Inl undefined_function)"

text \<open>
  An unqualified identifier at a place of a statement where a column of the tables in the
  \<^verbatim>\<open>FROM\<close> clause (or of the target table) can stand. PL/pgSQL hands the statement to the
  SQL parser with the variables of the function in scope and, as no function of the file
  sets \<^verbatim>\<open>#variable_conflict\<close>, refuses an identifier that is the name of a column and of
  a variable.
\<close>

definition column_reference :: "string list \<Rightarrow> string list \<Rightarrow> string \<Rightarrow> sqlstate + unit" where
  "column_reference variables columns name =
     (if name \<in> set columns \<and> name \<in> set variables then Inl ambiguous_column
      else if name \<in> set columns then Inr ()
      else Inl undefined_column)"

text \<open>A statement whose analysis makes the given lookups, in this order, and that runs when
  all of them succeed.\<close>

fun analysed :: "(sqlstate + unit) list \<Rightarrow> (sqlstate + 'a) \<Rightarrow> sqlstate + 'a" where
  "analysed [] run = run"
| "analysed (Inl e # lookups) run = Inl e"
| "analysed (Inr u # lookups) run = analysed lookups run"

subsection \<open>Sessions and the policies of the source tables (lines 479-503, 530-581, 626-653)\<close>

text \<open>
  \<^verbatim>\<open>ALTER TABLE ... ENABLE ROW LEVEL SECURITY\<close> puts every statement on a table under the
  table's policies, unless the current role is the table's owner, a superuser or a role
  with \<^verbatim>\<open>BYPASSRLS\<close>. None of the functions below is declared \<^verbatim>\<open>SECURITY DEFINER\<close> (each ends
  in \<^verbatim>\<open>$$ LANGUAGE plpgsql;\<close>), so its statements run as the role that called the function
  or fired the trigger. A session is its role, which has the privileges on the tables that
  its statements need, and the value of \<^verbatim>\<open>auth.uid()\<close>, which the policies compare with
  the column \<^verbatim>\<open>users.auth_uid\<close>.
\<close>

datatype current_role = subject_to_rls | bypasses_rls

record session =
  session_role :: current_role
  auth_uid :: "string option"

text \<open>The policies of one command on one table are permissive: a row passes when it passes
  one of them. A policy whose expression cannot be expanded makes the statement raise.\<close>

fun permissive :: "(sqlstate + ('row \<Rightarrow> bool)) list \<Rightarrow> sqlstate + ('row \<Rightarrow> bool)" where
  "permissive [] = Inr (\<lambda>row. False)"
| "permissive (Inl e # policies) = Inl e"
| "permissive (Inr policy # policies) =
     (case permissive policies of
        Inl e \<Rightarrow> Inl e
      | Inr others \<Rightarrow> Inr (\<lambda>row. policy row \<or> others row))"

text \<open>The rows of a table that a \<^verbatim>\<open>SELECT\<close> of the session reads, given the table's
  \<^verbatim>\<open>FOR SELECT\<close> policies.\<close>

definition SELECT_FROM ::
  "session \<Rightarrow> (sqlstate + ('row \<Rightarrow> bool)) list \<Rightarrow> 'row list \<Rightarrow> sqlstate + 'row list" where
  "SELECT_FROM s policies rows =
     (case session_role s of
        bypasses_rls \<Rightarrow> Inr rows
      | subject_to_rls \<Rightarrow>
          (case permissive policies of
             Inl e \<Rightarrow> Inl e
           | Inr visible \<Rightarrow> Inr (filter visible rows)))"

text \<open>\<^verbatim>\<open>"Users can view their own profile" ON users FOR SELECT USING (auth.uid() = auth_uid)\<close>.\<close>

definition Users_can_view_their_own_profile :: "session \<Rightarrow> users_row \<Rightarrow> bool" where
  "Users_can_view_their_own_profile s u = is_true (sql_eq (auth_uid s) (Some (users_auth_uid u)))"

text \<open>
  \<^verbatim>\<open>"Admins can view all users" ON users FOR SELECT USING (EXISTS (SELECT 1 FROM users WHERE
  auth_uid = auth.uid() AND role = 'admin'))\<close> (lines 497-503): a policy of \<^verbatim>\<open>users\<close> that
  selects from \<^verbatim>\<open>users\<close>. Its subquery is under the policies of \<^verbatim>\<open>users\<close> again, among them
  this one; the rewriter finds the table among those whose policies it is expanding and
  raises \<^verbatim>\<open>infinite recursion detected in policy for relation "users"\<close>, before any row is
  read.
\<close>

definition Admins_can_view_all_users :: "session \<Rightarrow> database \<Rightarrow> sqlstate + (users_row \<Rightarrow> bool)" where
  "Admins_can_view_all_users s db = Inl invalid_object_definition"

definition SELECT_FROM_users :: "session \<Rightarrow> database \<Rightarrow> sqlstate + users_row list" where
  "SELECT_FROM_users s db =
     SELECT_FROM s [Inr (Users_can_view_their_own_profile s), Admins_can_view_all_users s db]
       (users db)"

text \<open>\<^verbatim>\<open>EXISTS (SELECT 1 FROM users WHERE id = k AND auth_uid = auth.uid())\<close>, the expression of
  the policies that let a user read the rows that are the user's own, over the rows of
  \<^verbatim>\<open>users\<close> that the session reads.\<close>

definition is_own :: "session \<Rightarrow> users_row list \<Rightarrow> uuid \<Rightarrow> bool" where
  "is_own s us k =
     list_ex (\<lambda>u. is_true (sql_and (Some (users_id u = k))
                                    (sql_eq (Some (users_auth_uid u)) (auth_uid s)))) us"

text \<open>\<^verbatim>\<open>"Users can view all verified projects"\<close> and \<^verbatim>\<open>"Users can view their own projects"\<close>
  (lines 531-540).\<close>

definition Users_can_view_all_verified_projects :: "projects_row \<Rightarrow> bool" where
  "Users_can_view_all_verified_projects p = is_true (sql_eq (projects_verified p) (Some True))"

definition Users_can_view_their_own_projects ::
  "session \<Rightarrow> database \<Rightarrow> sqlstate + (projects_row \<Rightarrow> bool)" where
  "Users_can_view_their_own_projects s db =
     (case SELECT_FROM_users s db of
        Inl e \<Rightarrow> Inl e
      | Inr us \<Rightarrow> Inr (\<lambda>p. is_own s us (projects_owner_id p)))"

definition SELECT_FROM_projects :: "session \<Rightarrow> database \<Rightarrow> sqlstate + projects_row list" where
  "SELECT_FROM_projects s db =
     SELECT_FROM s
       [Inr Users_can_view_all_verified_projects, Users_can_view_their_own_projects s db]
       (projects db)"

text \<open>\<^verbatim>\<open>"Students can view their own assignments"\<close> and \<^verbatim>\<open>"Mentors can view all assignments"\<close>
  (lines 559-573); the latter is \<^verbatim>\<open>EXISTS (SELECT 1 FROM users WHERE auth_uid = auth.uid()
  AND role IN ('mentor', 'admin'))\<close>.\<close>

definition Students_can_view_their_own_assignments ::
  "session \<Rightarrow> database \<Rightarrow> sqlstate + (assignments_row \<Rightarrow> bool)" where
  "Students_can_view_their_own_assignments s db =
     (case SELECT_FROM_users s db of
        Inl e \<Rightarrow> Inl e
      | Inr us \<Rightarrow> Inr (\<lambda>a. is_own s us (assignments_student_id a)))"

definition Mentors_can_view_all_assignments ::
  "session \<Rightarrow> database \<Rightarrow> sqlstate + (assignments_row \<Rightarrow> bool)" where
  "Mentors_can_view_all_assignments s db =
     (case SELECT_FROM_users s db of
        Inl e \<Rightarrow> Inl e
      | Inr us \<Rightarrow>
          Inr (\<lambda>a. list_ex (\<lambda>u. is_true (sql_and (sql_eq (Some (users_auth_uid u)) (auth_uid s))
                                      (Some (users_role u \<in> {''mentor'', ''admin''})))) us))"

definition SELECT_FROM_assignments :: "session \<Rightarrow> database \<Rightarrow> sqlstate + assignments_row list" where
  "SELECT_FROM_assignments s db =
     SELECT_FROM s
       [Students_can_view_their_own_assignments s db, Mentors_can_view_all_assignments s db]
       (assignments db)"

text \<open>\<^verbatim>\<open>"Users can view all quizzes" ON quizzes FOR SELECT USING (true)\<close> (lines 627-628).\<close>

definition Users_can_view_all_quizzes :: "quizzes_row \<Rightarrow> bool" where
  "Users_can_view_all_quizzes q = True"

definition SELECT_FROM_quizzes :: "session \<Rightarrow> database \<Rightarrow> sqlstate + quizzes_row list" where
  "SELECT_FROM_quizzes s db = SELECT_FROM s [Inr Users_can_view_all_quizzes] (quizzes db)"

text \<open>\<^verbatim>\<open>"Students can view their own quiz attempts"\<close> (lines 639-645).\<close>

definition Students_can_view_their_own_quiz_attempts ::
  "session \<Rightarrow> database \<Rightarrow> sqlstate + (quiz_attempts_row \<Rightarrow> bool)" where
  "Students_can_view_their_own_quiz_attempts s db =
     (case SELECT_FROM_users s db of
        Inl e \<Rightarrow> Inl e
      | Inr us \<Rightarrow> Inr (\<lambda>qa. is_own s us (qa_student_id qa)))"

definition SELECT_FROM_quiz_attempts ::
  "session \<Rightarrow> database \<Rightarrow> sqlstate + quiz_attempts_row list" where
  "SELECT_FROM_quiz_attempts s db =
     SELECT_FROM s [Students_can_view_their_own_quiz_attempts s db] (quiz_attempts db)"

subsection \<open>The four point functions (lines 214-288)\<close>

text \<open>Each of the four declares the parameter \<^verbatim>\<open>student_id UUID\<close> and the variable
  \<^verbatim>\<open>total_points INTEGER\<close>. A function of the file is not \<^verbatim>\<open>STRICT\<close>, so its argument may be
  NULL.\<close>

definition calculate_points_variables :: "string list" where
  "calculate_points_variables = [''student_id'', ''total_points'']"

text \<open>
  The scalar subquery of \<^verbatim>\<open>calculate_quiz_points\<close> (lines 223-226): the answers joined
  with the questions on the ordinal position, counted where
  \<^verbatim>\<open>ans.answer = (ques.question->>'correctIndex')::integer\<close> holds. The comparison is made by
  the operator that the analysis found for its operands.
\<close>

definition correct_answers ::
  "(datum option \<Rightarrow> datum option \<Rightarrow> bool option) \<Rightarrow> quiz_attempts_row \<Rightarrow> quizzes_row \<Rightarrow> int" where
  "correct_answers eq qa q =
     COUNT [() .
       (answer, idx) \<leftarrow> WITH_ORDINALITY (jsonb_array_elements (qa_answers qa)),
       (question, qidx) \<leftarrow> WITH_ORDINALITY (jsonb_array_elements (Some (q_questions q))),
       idx = qidx,
       is_true (eq (Some (jsonb_datum answer)) (map_option integer_datum (correctIndex question)))]"

text \<open>
  \<^verbatim>\<open>calculate_quiz_points\<close> (lines 215-237). Every column of its statement is qualified
  (\<^verbatim>\<open>qa.\<close>, \<^verbatim>\<open>q.\<close>, \<^verbatim>\<open>ans.\<close>, \<^verbatim>\<open>ques.\<close>) and the parameter is written
  \<^verbatim>\<open>calculate_quiz_points.student_id\<close>. The other comparisons have operands of one type
  (\<^verbatim>\<open>uuid\<close>, \<^verbatim>\<open>bigint\<close>); the one of line 226 has \<^verbatim>\<open>ans.answer\<close>, of type \<^verbatim>\<open>jsonb\<close> (a column
  of \<^verbatim>\<open>jsonb_array_elements\<close>), on the left and a value cast to \<^verbatim>\<open>integer\<close> on the right.
\<close>

definition calculate_quiz_points :: "session \<Rightarrow> database \<Rightarrow> uuid option \<Rightarrow> sqlstate + int" where
  "calculate_quiz_points s db student_id =
     (case operator_eq JSONB INTEGER of
        Inl e \<Rightarrow> Inl e
      | Inr eq \<Rightarrow>
          (case SELECT_FROM_quiz_attempts s db of
             Inl e \<Rightarrow> Inl e
           | Inr qas \<Rightarrow>
               (case SELECT_FROM_quizzes s db of
                  Inl e \<Rightarrow> Inl e
                | Inr qs \<Rightarrow>
                    int4 (COALESCE_or (sql_SUM
                      [(if qa_completed_at qa \<noteq> None then correct_answers eq qa q else 0) .
                         qa \<leftarrow> qas, q \<leftarrow> qs,
                         qa_quiz_id qa = q_id q,
                         is_true (sql_eq (Some (qa_student_id qa)) student_id)]) 0))))"

text \<open>
  \<^verbatim>\<open>calculate_assignment_points\<close> (lines 240-253):
  \<^verbatim>\<open>WHERE student_id = calculate_assignment_points.student_id AND submission_url IS NOT NULL\<close>.
  The left \<^verbatim>\<open>student_id\<close> is unqualified; \<^verbatim>\<open>assignments\<close> has a column of that name and the
  function has a parameter of that name.
\<close>

definition calculate_assignment_points ::
  "session \<Rightarrow> database \<Rightarrow> uuid option \<Rightarrow> sqlstate + int" where
  "calculate_assignment_points s db student_id =
     analysed
       [column_reference calculate_points_variables assignments_columns ''student_id'',
        column_reference calculate_points_variables assignments_columns ''submission_url'']
       (case SELECT_FROM_assignments s db of
          Inl e \<Rightarrow> Inl e
        | Inr rows \<Rightarrow>
            int4 (COUNT [a \<leftarrow> rows.
              is_true (sql_and (sql_eq (Some (assignments_student_id a)) student_id)
                               (Some (assignments_submission_url a \<noteq> None)))] * 20))"

text \<open>
  \<^verbatim>\<open>calculate_project_points\<close> (lines 256-269):
  \<^verbatim>\<open>WHERE owner_id = calculate_project_points.student_id AND verified = true\<close>; there is no
  condition on \<^verbatim>\<open>tags\<close>.
\<close>

definition calculate_project_points ::
  "session \<Rightarrow> database \<Rightarrow> uuid option \<Rightarrow> sqlstate + int" where
  "calculate_project_points s db student_id =
     analysed
       [column_reference calculate_points_variables projects_columns ''owner_id'',
        column_reference calculate_points_variables projects_columns ''verified'']
       (case SELECT_FROM_projects s db of
          Inl e \<Rightarrow> Inl e
        | Inr rows \<Rightarrow>
            int4 (COUNT [p \<leftarrow> rows.
              is_true (sql_and (sql_eq (Some (projects_owner_id p)) student_id)
                               (sql_eq (projects_verified p) (Some True)))] * 100))"

text \<open>
  \<^verbatim>\<open>calculate_challenge_points\<close> (lines 272-288): the same with
  \<^verbatim>\<open>AND 'challenge' = ANY(tags)\<close>.
\<close>

definition calculate_challenge_points ::
  "session \<Rightarrow> database \<Rightarrow> uuid option \<Rightarrow> sqlstate + int" where
  "calculate_challenge_points s db student_id =
     analysed
       [column_reference calculate_points_variables projects_columns ''owner_id'',
        column_reference calculate_points_variables projects_columns ''verified'',
        column_reference calculate_points_variables projects_columns ''tags'']
       (case SELECT_FROM_projects s db of
          Inl e \<Rightarrow> Inl e
        | Inr rows \<Rightarrow>
            int4 (COUNT [p \<leftarrow> rows.
              is_true (sql_and (sql_and (sql_eq (Some (projects_owner_id p)) student_id)
                                        (sql_eq (projects_verified p) (Some True)))
                               (eq_any ''challenge'' (projects_tags p)))] * 80))"

subsection \<open>Row-level security of the leaderboard table (lines 487, 655-667)\<close>

text \<open>The four policies: \<^verbatim>\<open>FOR SELECT USING (true)\<close>, \<^verbatim>\<open>FOR UPDATE USING (false)\<close>,
  \<^verbatim>\<open>FOR INSERT WITH CHECK (false)\<close>, \<^verbatim>\<open>FOR DELETE USING (false)\<close>.\<close>

definition Users_can_view_leaderboard :: "leaderboard_row \<Rightarrow> bool" where
  "Users_can_view_leaderboard row = True"

definition No_direct_leaderboard_updates :: "leaderboard_row \<Rightarrow> bool" where
  "No_direct_leaderboard_updates row = False"

definition No_direct_leaderboard_inserts :: "leaderboard_row \<Rightarrow> bool" where
  "No_direct_leaderboard_inserts row = False"

definition No_direct_leaderboard_deletes :: "leaderboard_row \<Rightarrow> bool" where
  "No_direct_leaderboard_deletes row = False"

definition may_insert :: "session \<Rightarrow> leaderboard_row \<Rightarrow> bool" where
  "may_insert s row = (session_role s = bypasses_rls \<or> No_direct_leaderboard_inserts row)"

definition may_update :: "session \<Rightarrow> leaderboard_row \<Rightarrow> bool" where
  "may_update s row = (session_role s = bypasses_rls \<or> No_direct_leaderboard_updates row)"

definition may_delete :: "session \<Rightarrow> leaderboard_row \<Rightarrow> bool" where
  "may_delete s row = (session_role s = bypasses_rls \<or> No_direct_leaderboard_deletes row)"

subsection \<open>Statements on the leaderboard table\<close>

text \<open>
  \<^verbatim>\<open>INSERT INTO leaderboard VALUES (...)\<close>, as a statement of its own: a row that fails the
  insert policy's check raises; so does a second row for the same \<^verbatim>\<open>user_id\<close> (the primary
  key) and a row whose \<^verbatim>\<open>user_id\<close> is not the \<^verbatim>\<open>id\<close> of a user (the foreign key of line 123).
\<close>

definition INSERT_INTO_leaderboard ::
  "session \<Rightarrow> leaderboard_row \<Rightarrow> database \<Rightarrow> sqlstate + database" where
  "INSERT_INTO_leaderboard s row db =
     (if \<not> may_insert s row then Inl insufficient_privilege
      else if lb_user_id row \<in> set (map lb_user_id (leaderboard db)) then Inl unique_violation
      else if lb_user_id row \<notin> set (map users_id (users db)) then Inl foreign_key_violation
      else Inr (db\<lparr>leaderboard := leaderboard db @ [row]\<rparr>))"

text \<open>
  \<^verbatim>\<open>UPDATE leaderboard SET ... WHERE ...\<close>: the update policy's \<^verbatim>\<open>USING\<close> expression is added
  to the \<^verbatim>\<open>WHERE\<close> clause, so a row that fails it is left as it is, without an error. A
  \<^verbatim>\<open>user_id\<close> that the statement changes must stay unique and must be the \<^verbatim>\<open>id\<close> of a user.
\<close>

definition UPDATE_leaderboard ::
  "session \<Rightarrow> (leaderboard_row \<Rightarrow> leaderboard_row) \<Rightarrow> (leaderboard_row \<Rightarrow> bool) \<Rightarrow>
   database \<Rightarrow> sqlstate + database" where
  "UPDATE_leaderboard s set_clause where_clause db =
     (let rows = map (\<lambda>row. if where_clause row \<and> may_update s row then set_clause row else row)
                     (leaderboard db)
      in if distinct (map lb_user_id (leaderboard db)) \<and> \<not> distinct (map lb_user_id rows)
         then Inl unique_violation
         else if list_ex (\<lambda>(old, new). lb_user_id new \<noteq> lb_user_id old \<and>
                            lb_user_id new \<notin> set (map users_id (users db)))
                   (zip (leaderboard db) rows)
         then Inl foreign_key_violation
         else Inr (db\<lparr>leaderboard := rows\<rparr>))"

text \<open>\<^verbatim>\<open>DELETE FROM leaderboard WHERE ...\<close>: the delete policy's \<^verbatim>\<open>USING\<close> expression is added
  to the \<^verbatim>\<open>WHERE\<close> clause likewise.\<close>

definition DELETE_FROM_leaderboard ::
  "session \<Rightarrow> (leaderboard_row \<Rightarrow> bool) \<Rightarrow> database \<Rightarrow> sqlstate + database" where
  "DELETE_FROM_leaderboard s where_clause db =
     Inr (db\<lparr>leaderboard := [row \<leftarrow> leaderboard db. \<not> (where_clause row \<and> may_delete s row)]\<rparr>)"

definition jsonb_build_object :: "(string \<times> int) list \<Rightarrow> (string \<times> int) list" where
  "jsonb_build_object kvs = kvs"

text \<open>
  The upsert of lines 314-329 and 365-380, in a function with the given variables:
  \<^verbatim>\<open>INSERT INTO leaderboard (user_id, total_points, breakdown, updated_at) VALUES (...)
  ON CONFLICT (user_id) DO UPDATE SET total_points = EXCLUDED.total_points,
  breakdown = EXCLUDED.breakdown, updated_at = EXCLUDED.updated_at\<close>.
  The \<^verbatim>\<open>user_id\<close> of \<^verbatim>\<open>ON CONFLICT (user_id)\<close> is an unqualified column of the target table;
  the names in the column list and on the left of \<^verbatim>\<open>SET\<close> are not expressions, and the
  values are variables. The proposed row is checked against the insert policy before the
  conflict is looked for; on a conflict the existing row must pass the update policy.
  A row that is inserted must have a \<^verbatim>\<open>user_id\<close> (the primary key is \<^verbatim>\<open>NOT NULL\<close>) that is
  the \<^verbatim>\<open>id\<close> of a user. A new row has no rank yet; an existing row keeps its rank.
\<close>

definition INSERT_ON_CONFLICT_DO_UPDATE ::
  "string list \<Rightarrow> session \<Rightarrow> uuid option \<Rightarrow> int \<Rightarrow> (string \<times> int) list \<Rightarrow> timestamptz \<Rightarrow>
   database \<Rightarrow> sqlstate + database" where
  "INSERT_ON_CONFLICT_DO_UPDATE variables s user_id total_points breakdown updated_at db =
     analysed [column_reference variables leaderboard_columns ''user_id'']
       (case user_id of
          None \<Rightarrow>
            Inl (if session_role s = bypasses_rls then not_null_violation
                 else insufficient_privilege)
        | Some uid \<Rightarrow>
           (let EXCLUDED = \<lparr>lb_user_id = uid, lb_total_points = total_points,
                            lb_breakdown = breakdown, lb_rank = None,
                            lb_updated_at = updated_at\<rparr>
            in if \<not> may_insert s EXCLUDED then Inl insufficient_privilege
               else if uid \<in> set (map lb_user_id (leaderboard db))
               then (if list_ex (\<lambda>row. lb_user_id row = uid \<and> \<not> may_update s row) (leaderboard db)
                     then Inl insufficient_privilege
                     else Inr (db\<lparr>leaderboard :=
                            map (\<lambda>row. if lb_user_id row = uid
                                       then row\<lparr>lb_total_points := lb_total_points EXCLUDED,
                                                lb_breakdown := lb_breakdown EXCLUDED,
                                                lb_updated_at := lb_updated_at EXCLUDED\<rparr>
                                       else row)
                                (leaderboard db)\<rparr>))
               else if uid \<notin> set (map users_id (users db)) then Inl foreign_key_violation
               else Inr (db\<lparr>leaderboard := leaderboard db @ [EXCLUDED]\<rparr>)))"

text \<open>
  The rank statement of lines 332-339 and 383-390, in a function with the given variables.
  \<^verbatim>\<open>SELECT user_id, ROW_NUMBER() OVER (ORDER BY total_points DESC) as new_rank FROM
  leaderboard\<close> has the unqualified columns \<^verbatim>\<open>user_id\<close> and \<^verbatim>\<open>total_points\<close>; every row is
  visible to it (its policy is \<open>true\<close>). \<^verbatim>\<open>ROW_NUMBER\<close> numbers the rows from 1 in the order of
  \<^verbatim>\<open>total_points DESC\<close>. The statement leaves the order of rows with equal totals to the
  executor: \<open>tie\<close> stands for that order (rows with equal totals come in the order of
  their \<open>tie\<close> value, whatever it is).
\<close>

definition ranked_users :: "(uuid \<Rightarrow> nat) \<Rightarrow> leaderboard_row list \<Rightarrow> (uuid \<times> int) list" where
  "ranked_users tie lb =
     zip (map lb_user_id
            (sort_key (\<lambda>row. - lb_total_points row) (sort_key (\<lambda>row. tie (lb_user_id row)) lb)))
         (map int [1..<Suc (length lb)])"

definition UPDATE_leaderboard_SET_rank ::
  "string list \<Rightarrow> session \<Rightarrow> (uuid \<Rightarrow> nat) \<Rightarrow> database \<Rightarrow> sqlstate + database" where
  "UPDATE_leaderboard_SET_rank variables s tie db =
     analysed
       [column_reference variables leaderboard_columns ''user_id'',
        column_reference variables leaderboard_columns ''total_points'']
       (Inr (db\<lparr>leaderboard :=
          map (\<lambda>row. case map_of (ranked_users tie (leaderboard db)) (lb_user_id row) of
                       None \<Rightarrow> row
                     | Some new_rank \<Rightarrow>
                         if may_update s row then row\<lparr>lb_rank := Some new_rank\<rparr> else row)
              (leaderboard db)\<rparr>))"

subsection \<open>The recomputation functions (lines 290-410)\<close>

text \<open>\<^verbatim>\<open>refresh_user_leaderboard(user_id UUID)\<close> (lines 346-392) and the variables it
  declares.\<close>

definition refresh_user_leaderboard_variables :: "string list" where
  "refresh_user_leaderboard_variables =
     [''user_id'', ''quiz_points'', ''assignment_points'', ''project_points'',
      ''challenge_points'', ''total_points'']"

definition refresh_user_leaderboard ::
  "session \<Rightarrow> timestamptz \<Rightarrow> (uuid \<Rightarrow> nat) \<Rightarrow> uuid option \<Rightarrow> database \<Rightarrow> sqlstate + database" where
  "refresh_user_leaderboard s now tie user_id db =
     (case calculate_quiz_points s db user_id of
        Inl e \<Rightarrow> Inl e
      | Inr quiz_points \<Rightarrow>
     (case calculate_assignment_points s db user_id of
        Inl e \<Rightarrow> Inl e
      | Inr assignment_points \<Rightarrow>
     (case calculate_project_points s db user_id of
        Inl e \<Rightarrow> Inl e
      | Inr project_points \<Rightarrow>
     (case calculate_challenge_points s db user_id of
        Inl e \<Rightarrow> Inl e
      | Inr challenge_points \<Rightarrow>
     (case int4_sum quiz_points [assignment_points, project_points, challenge_points] of
        Inl e \<Rightarrow> Inl e
      | Inr total_points \<Rightarrow>
     (case INSERT_ON_CONFLICT_DO_UPDATE refresh_user_leaderboard_variables s user_id total_points
             (jsonb_build_object
                [(''quizzes'', quiz_points), (''assignments'', assignment_points),
                 (''projects'', project_points), (''challenges'', challenge_points)])
             now db of
        Inl e \<Rightarrow> Inl e
      | Inr db' \<Rightarrow>
          UPDATE_leaderboard_SET_rank refresh_user_leaderboard_variables s tie db'))))))"

text \<open>The row a row-level trigger passes to its function as \<^verbatim>\<open>NEW\<close> (or \<^verbatim>\<open>OLD\<close>).\<close>

datatype tg_row =
  quiz_attempts_ROW quiz_attempts_row
| assignments_ROW assignments_row
| projects_ROW projects_row

text \<open>
  The fields \<^verbatim>\<open>NEW.student_id\<close>, \<^verbatim>\<open>NEW.owner_id\<close> and \<^verbatim>\<open>NEW.user_id\<close>. \<^verbatim>\<open>NEW\<close> has the columns
  of the table of the trigger: \<^verbatim>\<open>quiz_attempts\<close> and \<^verbatim>\<open>assignments\<close> have \<^verbatim>\<open>student_id\<close> and
  no \<^verbatim>\<open>owner_id\<close>, \<^verbatim>\<open>projects\<close> has \<^verbatim>\<open>owner_id\<close> and no \<^verbatim>\<open>student_id\<close>, and none of the three
  has \<^verbatim>\<open>user_id\<close> (lines 41-67, 108-119). A field that the record does not have raises
  \<^verbatim>\<open>record "new" has no field\<close>.
\<close>

fun student_id :: "tg_row \<Rightarrow> sqlstate + uuid option" where
  "student_id (quiz_attempts_ROW qa) = Inr (Some (qa_student_id qa))"
| "student_id (assignments_ROW a) = Inr (Some (assignments_student_id a))"
| "student_id (projects_ROW p) = Inl undefined_column"

fun owner_id :: "tg_row \<Rightarrow> sqlstate + uuid option" where
  "owner_id (quiz_attempts_ROW qa) = Inl undefined_column"
| "owner_id (assignments_ROW a) = Inl undefined_column"
| "owner_id (projects_ROW p) = Inr (Some (projects_owner_id p))"

fun user_id :: "tg_row \<Rightarrow> sqlstate + uuid option" where
  "user_id (quiz_attempts_ROW qa) = Inl undefined_column"
| "user_id (assignments_ROW a) = Inl undefined_column"
| "user_id (projects_ROW p) = Inl undefined_column"

text \<open>
  The trigger function \<^verbatim>\<open>update_leaderboard()\<close> (lines 291-343) and the variables it
  declares. The three fields of \<^verbatim>\<open>COALESCE(NEW.student_id, NEW.owner_id, NEW.user_id)\<close> are
  all looked up when the expression is analysed, also when an earlier one is not NULL.
\<close>

definition update_leaderboard_variables :: "string list" where
  "update_leaderboard_variables =
     [''target_user_id'', ''quiz_points'', ''assignment_points'', ''project_points'',
      ''challenge_points'', ''total_points'']"

definition update_leaderboard ::
  "session \<Rightarrow> timestamptz \<Rightarrow> (uuid \<Rightarrow> nat) \<Rightarrow> tg_row \<Rightarrow> database \<Rightarrow> sqlstate + database" where
  "update_leaderboard s now tie NEW db =
     (case student_id NEW of
        Inl e \<Rightarrow> Inl e
      | Inr NEW_student_id \<Rightarrow>
     (case owner_id NEW of
        Inl e \<Rightarrow> Inl e
      | Inr NEW_owner_id \<Rightarrow>
     (case user_id NEW of
        Inl e \<Rightarrow> Inl e
      | Inr NEW_user_id \<Rightarrow>
     (let target_user_id = COALESCE [NEW_student_id, NEW_owner_id, NEW_user_id] in
     (case calculate_quiz_points s db target_user_id of
        Inl e \<Rightarrow> Inl e
      | Inr quiz_points \<Rightarrow>
     (case calculate_assignment_points s db target_user_id of
        Inl e \<Rightarrow> Inl e
      | Inr assignment_points \<Rightarrow>
     (case calculate_project_points s db target_user_id of
        Inl e \<Rightarrow> Inl e
      | Inr project_points \<Rightarrow>
     (case calculate_challenge_points s db target_user_id of
        Inl e \<Rightarrow> Inl e
      | Inr challenge_points \<Rightarrow>
     (case int4_sum quiz_points [assignment_points, project_points, challenge_points] of
        Inl e \<Rightarrow> Inl e
      | Inr total_points \<Rightarrow>
     (case INSERT_ON_CONFLICT_DO_UPDATE update_leaderboard_variables s target_user_id total_points
             (jsonb_build_object
                [(''quizzes'', quiz_points), (''assignments'', assignment_points),
                 (''projects'', project_points), (''challenges'', challenge_points)])
             now db of
        Inl e \<Rightarrow> Inl e
      | Inr db' \<Rightarrow>
          UPDATE_leaderboard_SET_rank update_leaderboard_variables s tie db'))))))))))"

text \<open>The loop of \<^verbatim>\<open>refresh_all_leaderboard\<close> (lines 404-408); an exception ends it.\<close>

fun refresh_each ::
  "session \<Rightarrow> timestamptz \<Rightarrow> (uuid \<Rightarrow> nat) \<Rightarrow> uuid list \<Rightarrow> database \<Rightarrow> sqlstate + database" where
  "refresh_each s now tie [] db = Inr db"
| "refresh_each s now tie (user_record # rest) db =
     (case refresh_user_leaderboard s now tie (Some user_record) db of
        Inl e \<Rightarrow> Inl e
      | Inr db' \<Rightarrow> refresh_each s now tie rest db')"

text \<open>
  \<^verbatim>\<open>refresh_all_leaderboard()\<close> (lines 395-410), which declares the variable \<^verbatim>\<open>user_record\<close>:
  \<^verbatim>\<open>DELETE FROM leaderboard\<close>, then the loop over \<^verbatim>\<open>SELECT id FROM users WHERE role =
  'student'\<close>, whose body is not executed when the query has no row. When the loop raises,
  the function raises and its \<^verbatim>\<open>DELETE\<close> is undone with it.
\<close>

definition refresh_all_leaderboard_variables :: "string list" where
  "refresh_all_leaderboard_variables = [''user_record'']"

definition refresh_all_leaderboard ::
  "session \<Rightarrow> timestamptz \<Rightarrow> (uuid \<Rightarrow> nat) \<Rightarrow> database \<Rightarrow> sqlstate + database" where
  "refresh_all_leaderboard s now tie db =
     (case DELETE_FROM_leaderboard s (\<lambda>row. True) db of
        Inl e \<Rightarrow> Inl e
      | Inr db' \<Rightarrow>
          analysed
            [column_reference refresh_all_leaderboard_variables users_columns ''id'',
             column_reference refresh_all_leaderboard_variables users_columns ''role'']
            (case SELECT_FROM_users s db' of
               Inl e \<Rightarrow> Inl e
             | Inr us \<Rightarrow>
                 refresh_each s now tie [users_id u. u \<leftarrow> us, users_role u = ''student''] db'))"

subsection \<open>Triggers (lines 421-439)\<close>

datatype tg_op = INSERT | UPDATE | DELETE

text \<open>A row-level \<^verbatim>\<open>AFTER\<close> trigger: its name, its events, its table and its \<^verbatim>\<open>WHEN\<close>
  condition over \<^verbatim>\<open>OLD\<close> and \<^verbatim>\<open>NEW\<close>. Each of the four executes \<^verbatim>\<open>update_leaderboard()\<close>.\<close>

record trigger =
  tg_name :: string
  tg_event :: "tg_op list"
  tg_table_name :: string
  tg_when :: "tg_row option \<Rightarrow> tg_row \<Rightarrow> bool"

definition trigger_update_leaderboard_quiz_attempts :: trigger where
  "trigger_update_leaderboard_quiz_attempts =
     \<lparr>tg_name = ''trigger_update_leaderboard_quiz_attempts'', tg_event = [INSERT, UPDATE],
      tg_table_name = ''quiz_attempts'', tg_when = (\<lambda>OLD NEW. True)\<rparr>"

definition trigger_update_leaderboard_assignments :: trigger where
  "trigger_update_leaderboard_assignments =
     \<lparr>tg_name = ''trigger_update_leaderboard_assignments'', tg_event = [INSERT, UPDATE],
      tg_table_name = ''assignments'', tg_when = (\<lambda>OLD NEW. True)\<rparr>"

definition trigger_update_leaderboard_projects :: trigger where
  "trigger_update_leaderboard_projects =
     \<lparr>tg_name = ''trigger_update_leaderboard_projects'', tg_event = [INSERT, UPDATE],
      tg_table_name = ''projects'', tg_when = (\<lambda>OLD NEW. True)\<rparr>"

text \<open>\<^verbatim>\<open>WHEN (OLD.submission_url IS NULL AND NEW.submission_url IS NOT NULL)\<close>.\<close>

definition submission_added :: "tg_row option \<Rightarrow> tg_row \<Rightarrow> bool" where
  "submission_added OLD NEW =
     (case (OLD, NEW) of
        (Some (assignments_ROW old), assignments_ROW new) \<Rightarrow>
           assignments_submission_url old = None \<and> assignments_submission_url new \<noteq> None
      | _ \<Rightarrow> False)"

definition trigger_update_leaderboard_assignment_submission :: trigger where
  "trigger_update_leaderboard_assignment_submission =
     \<lparr>tg_name = ''trigger_update_leaderboard_assignment_submission'', tg_event = [UPDATE],
      tg_table_name = ''assignments'', tg_when = submission_added\<rparr>"

text \<open>The triggers that execute \<^verbatim>\<open>update_leaderboard()\<close>, in the order of their names, which
  is the order PostgreSQL fires the triggers of one event in.\<close>

definition triggers :: "trigger list" where
  "triggers =
     [trigger_update_leaderboard_assignment_submission,
      trigger_update_leaderboard_assignments,
      trigger_update_leaderboard_projects,
      trigger_update_leaderboard_quiz_attempts]"

definition triggers_on :: "string \<Rightarrow> tg_op \<Rightarrow> trigger list" where
  "triggers_on table_name op =
     [t \<leftarrow> triggers. tg_table_name t = table_name \<and> op \<in> set (tg_event t)]"

text \<open>
  The triggers of a table and an event, fired for a row that a statement has written, on the
  database as the statement left it: each trigger whose \<^verbatim>\<open>WHEN\<close> condition holds calls the
  trigger function, and an exception of the function ends the firing and aborts the
  statement.
\<close>

fun fire ::
  "session \<Rightarrow> timestamptz \<Rightarrow> (uuid \<Rightarrow> nat) \<Rightarrow> trigger list \<Rightarrow> tg_row option \<Rightarrow> tg_row \<Rightarrow>
   database \<Rightarrow> sqlstate + database" where
  "fire s now tie [] OLD NEW db = Inr db"
| "fire s now tie (t # ts) OLD NEW db =
     (if tg_when t OLD NEW
      then (case update_leaderboard s now tie NEW db of
              Inl e \<Rightarrow> Inl e
            | Inr db' \<Rightarrow> fire s now tie ts OLD NEW db')
      else fire s now tie ts OLD NEW db)"

fun TG_TABLE_NAME :: "tg_row \<Rightarrow> string" where
  "TG_TABLE_NAME (quiz_attempts_ROW qa) = ''quiz_attempts''"
| "TG_TABLE_NAME (assignments_ROW a) = ''assignments''"
| "TG_TABLE_NAME (projects_ROW p) = ''projects''"

subsection \<open>Deleting a user\<close>

text \<open>
  \<^verbatim>\<open>DELETE FROM users WHERE id = uid\<close> by a role the statement is open to, with the cascades
  of the foreign keys (\<^verbatim>\<open>ON DELETE CASCADE\<close>, lines 43, 59, 95, 110, 111, 123). No trigger
  of the file is on \<^verbatim>\<open>DELETE\<close>.
\<close>

definition DELETE_FROM_users :: "uuid \<Rightarrow> database \<Rightarrow> database" where
  "DELETE_FROM_users uid db =
     (let deleted_quizzes = [q_id q. q \<leftarrow> quizzes db, q_created_by q = uid]
      in db\<lparr>users := [u \<leftarrow> users db. users_id u \<noteq> uid],
            projects := [p \<leftarrow> projects db. projects_owner_id p \<noteq> uid],
            assignments := [a \<leftarrow> assignments db. assignments_student_id a \<noteq> uid],
            quizzes := [q \<leftarrow> quizzes db. q_created_by q \<noteq> uid],
            quiz_attempts := [qa \<leftarrow> quiz_attempts db.
                               qa_student_id qa \<noteq> uid \<and> qa_quiz_id qa \<notin> set deleted_quizzes],
            leaderboard := [row \<leftarrow> leaderboard db. lb_user_id row \<noteq> uid]\<rparr>)"

subsection \<open>The AI call wrapper\<close>

text \<open>
  Modelled from the spec: the client module \<^verbatim>\<open>src/lib/geminiClient.js\<close> (\<^verbatim>\<open>callAI\<close>, the grading
  caller) is not among the source files; only its documentation is. An attempt of a call to
  the provider times out, answers with a status that is not 2xx, answers with a payload that
  does not parse or does not have the expected shape, or succeeds.
\<close>

datatype 'a attempt_result = timed_out | non_2xx nat | malformed_payload | succeeded 'a

fun is_success :: "'a attempt_result \<Rightarrow> bool" where
  "is_success (succeeded x) = True"
| "is_success timed_out = False"
| "is_success (non_2xx status) = False"
| "is_success malformed_payload = False"

text \<open>
  Modelled from the spec: the typed failure that the caller receives when the attempts are
  exhausted, and what a call reports: its result, the number of attempts made and the
  backoff waits between them.
\<close>

datatype ai_failure = attempts_exhausted

record 'a ai_call =
  ai_result :: "ai_failure + 'a"
  ai_attempts :: nat
  ai_backoffs :: "nat list"

text \<open>
  Modelled from the spec: \<^verbatim>\<open>callAI\<close> makes up to 3 attempts in all; after a failed attempt that
  is not the last it waits \<open>base * 2 ^ (k - 1)\<close> after attempt \<open>k\<close> (exponential backoff; the spec
  does not fix the base) and tries again. \<open>provider k\<close> is what attempt \<open>k\<close> meets.
\<close>

definition max_attempts :: nat where
  "max_attempts = 3"

fun callAI_loop :: "nat \<Rightarrow> (nat \<Rightarrow> 'a attempt_result) \<Rightarrow> nat \<Rightarrow> nat \<Rightarrow> nat list \<Rightarrow> 'a ai_call" where
  "callAI_loop base provider 0 made waits =
     \<lparr>ai_result = Inl attempts_exhausted, ai_attempts = made, ai_backoffs = waits\<rparr>"
| "callAI_loop base provider (Suc left) made waits =
     (case provider (Suc made) of
        succeeded x \<Rightarrow> \<lparr>ai_result = Inr x, ai_attempts = Suc made, ai_backoffs = waits\<rparr>
      | _ \<Rightarrow> callAI_loop base provider left (Suc made)
               (if left = 0 then waits else waits @ [base * 2 ^ made]))"

definition callAI :: "nat \<Rightarrow> (nat \<Rightarrow> 'a attempt_result) \<Rightarrow> 'a ai_call" where
  "callAI base provider = callAI_loop base provider max_attempts 0 []"

text \<open>
  Modelled from the spec: grading returns \<^verbatim>\<open>{aiGrading?, basicScore, correctAnswers,
  totalQuestions}\<close>, where \<^verbatim>\<open>aiGrading\<close> is there only when the call succeeded and the basic score
  is the number of submitted answers that equal the correct index at their position.
\<close>

record 'g grading =
  aiGrading :: "'g option"
  basicScore :: nat
  correctAnswers :: nat
  totalQuestions :: nat

definition basic_score :: "int list \<Rightarrow> int list \<Rightarrow> nat" where
  "basic_score answers correct_indices =
     length [() . (a, c) \<leftarrow> zip answers correct_indices, a = c]"

definition gradeQuiz ::
  "nat \<Rightarrow> (nat \<Rightarrow> 'g attempt_result) \<Rightarrow> int list \<Rightarrow> int list \<Rightarrow> 'g grading" where
  "gradeQuiz base provider answers correct_indices =
     \<lparr>aiGrading = (case ai_result (callAI base provider) of Inl failure \<Rightarrow> None | Inr g \<Rightarrow> Some g),
      basicScore = basic_score answers correct_indices,
      correctAnswers = basic_score answers correct_indices,
      totalQuestions = length correct_indices\<rparr>"



subsection \<open>What the claims speak of\<close>

text \<open>The database after a statement: the one the statement returns, or the one before the
  statement when it raises.\<close>

definition database_after :: "sqlstate + database \<Rightarrow> database \<Rightarrow> database" where
  "database_after result db = (case result of Inl e \<Rightarrow> db | Inr db' \<Rightarrow> db')"



text \<open>The table after the rank statement, when neither the analysis nor a policy is in the
  way.\<close>

definition rank_rows :: "(uuid \<Rightarrow> nat) \<Rightarrow> leaderboard_row list \<Rightarrow> leaderboard_row list" where
  "rank_rows tie lb =
     map (\<lambda>row. row\<lparr>lb_rank := map_of (ranked_users tie lb) (lb_user_id row)\<rparr>) lb"

subsection \<open>Example sessions and databases\<close>

text \<open>A session of a role that bypasses row-level security (Supabase's \<^verbatim>\<open>service_role\<close>, or
  the owner of the tables), and a session of a client, signed in (\<^verbatim>\<open>authenticated\<close>) or not
  (\<^verbatim>\<open>anon\<close>).\<close>

definition service_role :: session where
  "service_role = \<lparr>session_role = bypasses_rls, auth_uid = None\<rparr>"

definition client :: "string option \<Rightarrow> session" where
  "client uid = \<lparr>session_role = subject_to_rls, auth_uid = uid\<rparr>"

definition student :: "uuid \<Rightarrow> string \<Rightarrow> users_row" where
  "student k uid = \<lparr>users_id = k, users_auth_uid = uid, users_role = ''student''\<rparr>"

definition mentor :: "uuid \<Rightarrow> string \<Rightarrow> users_row" where
  "mentor k uid = \<lparr>users_id = k, users_auth_uid = uid, users_role = ''mentor''\<rparr>"

text \<open>User 1 owns one verified project tagged \<^verbatim>\<open>challenge\<close>, and nothing else.\<close>

definition challenge_db :: database where
  "challenge_db =
     \<lparr>users = [student 1 ''auth-1''],
      projects = [\<lparr>projects_id = 10, projects_owner_id = 1,
                   projects_tags = Some [''challenge''], projects_verified = Some True\<rparr>],
      assignments = [], quizzes = [], quiz_attempts = [], leaderboard = []\<rparr>"

text \<open>A quiz of three questions; student 1 has a completed attempt with two correct answers
  and an attempt in progress with three; student 2 has a completed attempt.\<close>

definition quiz_db :: database where
  "quiz_db =
     \<lparr>users = [student 1 ''auth-1'', student 2 ''auth-2'', mentor 3 ''auth-3''],
      projects = [], assignments = [],
      quizzes = [\<lparr>q_id = 7, q_created_by = 3, q_questions =
                   [\<lparr>question_text = ''a'', options = [''x'', ''y'', ''z''], correctIndex = Some 0\<rparr>,
                    \<lparr>question_text = ''b'', options = [''x'', ''y'', ''z''], correctIndex = Some 2\<rparr>,
                    \<lparr>question_text = ''c'', options = [''x'', ''y'', ''z''], correctIndex = Some 1\<rparr>]\<rparr>],
      quiz_attempts =
        [\<lparr>qa_id = 20, qa_quiz_id = 7, qa_student_id = 1,
          qa_answers = Some [JNumber 0, JNumber 2, JNumber 0], qa_completed_at = Some 100\<rparr>,
         \<lparr>qa_id = 21, qa_quiz_id = 7, qa_student_id = 1,
          qa_answers = Some [JNumber 0, JNumber 2, JNumber 1], qa_completed_at = None\<rparr>,
         \<lparr>qa_id = 22, qa_quiz_id = 7, qa_student_id = 2,
          qa_answers = Some [JNumber 0, JNull, JNumber 1], qa_completed_at = Some 101\<rparr>],
      leaderboard = []\<rparr>"

text \<open>Student 1 has one completed attempt with 8 of 10 answers correct, one submitted
  assignment and one verified project that is not tagged \<^verbatim>\<open>challenge\<close>.\<close>

definition eight_of_ten_db :: database where
  "eight_of_ten_db =
     \<lparr>users = [student 1 ''auth-1'', mentor 3 ''auth-3''],
      projects = [\<lparr>projects_id = 10, projects_owner_id = 1,
                   projects_tags = Some [''web''], projects_verified = Some True\<rparr>],
      assignments = [\<lparr>assignments_id = 30, assignments_student_id = 1,
                      assignments_submission_url = Some ''submissions/30.pdf''\<rparr>],
      quizzes = [\<lparr>q_id = 7, q_created_by = 3, q_questions =
                   map (\<lambda>c. \<lparr>question_text = ''q'', options = [''w'', ''x'', ''y'', ''z''],
                              correctIndex = Some c\<rparr>) [0, 1, 2, 3, 0, 1, 2, 3, 0, 1]\<rparr>],
      quiz_attempts =
        [\<lparr>qa_id = 20, qa_quiz_id = 7, qa_student_id = 1,
          qa_answers = Some (map JNumber [0, 1, 2, 3, 0, 1, 2, 3, 3, 3]),
          qa_completed_at = Some 100\<rparr>],
      leaderboard = []\<rparr>"

text \<open>A leaderboard row with the given total and rank, written at time 7.\<close>

definition entry :: "uuid \<Rightarrow> int \<Rightarrow> int option \<Rightarrow> leaderboard_row" where
  "entry u pts k =
     \<lparr>lb_user_id = u, lb_total_points = pts,
      lb_breakdown = [(''quizzes'', 0), (''assignments'', 0), (''projects'', pts),
                      (''challenges'', 0)],
      lb_rank = k, lb_updated_at = 7\<rparr>"


text \<open>The only user is student 1, who has no source record.\<close>

definition one_student_db :: database where
  "one_student_db = challenge_db\<lparr>projects := []\<rparr>"

text \<open>The only user is a mentor, with or without a leaderboard row.\<close>

definition mentor_db :: "leaderboard_row list \<Rightarrow> database" where
  "mentor_db lb =
     \<lparr>users = [mentor 3 ''auth-3''],
      projects = [], assignments = [], quizzes = [], quiz_attempts = [], leaderboard = lb\<rparr>"

section \<open>Properties\<close>

subsection \<open>What the analysis of the statements finds\<close>


lemma quiz_points_raise:
  "calculate_quiz_points s db u = Inl undefined_function"
  by (simp add: calculate_quiz_points_def operator_eq_def)

lemma assignment_points_raise:
  "calculate_assignment_points s db u = Inl ambiguous_column"
  by (simp add: calculate_assignment_points_def column_reference_def
      calculate_points_variables_def assignments_columns_def)

lemma refresh_raises:
  "refresh_user_leaderboard s now tie u db = Inl undefined_function"
  by (simp add: refresh_user_leaderboard_def quiz_points_raise)

lemma trigger_function_raises:
  "update_leaderboard s now tie NEW db = Inl undefined_column"
  by (cases NEW) (simp_all add: update_leaderboard_def)

lemma fire_raises:
  "list_ex (\<lambda>t. tg_when t OLD NEW) ts \<Longrightarrow> fire s now tie ts OLD NEW db = Inl undefined_column"
  by (induction ts) (auto simp: trigger_function_raises)

lemma triggers_on_source_tables:
  "triggers_on ''quiz_attempts'' INSERT = [trigger_update_leaderboard_quiz_attempts]"
  "triggers_on ''quiz_attempts'' UPDATE = [trigger_update_leaderboard_quiz_attempts]"
  "triggers_on ''assignments'' INSERT = [trigger_update_leaderboard_assignments]"
  "triggers_on ''assignments'' UPDATE =
     [trigger_update_leaderboard_assignment_submission, trigger_update_leaderboard_assignments]"
  "triggers_on ''projects'' INSERT = [trigger_update_leaderboard_projects]"
  "triggers_on ''projects'' UPDATE = [trigger_update_leaderboard_projects]"
  by (simp_all add: triggers_on_def triggers_def trigger_update_leaderboard_quiz_attempts_def
      trigger_update_leaderboard_assignments_def trigger_update_leaderboard_projects_def
      trigger_update_leaderboard_assignment_submission_def)

lemma triggers_on_leaderboard:
  "triggers_on ''leaderboard'' op = []"
  by (simp add: triggers_on_def triggers_def trigger_update_leaderboard_quiz_attempts_def
      trigger_update_leaderboard_assignments_def trigger_update_leaderboard_projects_def
      trigger_update_leaderboard_assignment_submission_def)

lemma some_trigger_fires:
  "op = INSERT \<or> op = UPDATE \<Longrightarrow>
   list_ex (\<lambda>t. tg_when t OLD NEW) (triggers_on (TG_TABLE_NAME NEW) op)"
  by (cases NEW)
    (auto simp: triggers_on_source_tables trigger_update_leaderboard_quiz_attempts_def
      trigger_update_leaderboard_assignments_def trigger_update_leaderboard_projects_def)

lemma select_users:
  "SELECT_FROM_users s db =
     (case session_role s of
        bypasses_rls \<Rightarrow> Inr (users db)
      | subject_to_rls \<Rightarrow> Inl invalid_object_definition)"
  by (simp add: SELECT_FROM_users_def SELECT_FROM_def Admins_can_view_all_users_def
      split: current_role.splits)

lemma refresh_each_raises:
  "refresh_each s now tie us db = (if us = [] then Inr db else Inl undefined_function)"
  by (cases us) (simp_all add: refresh_raises)

lemma may_bypass [simp]:
  "session_role s = bypasses_rls \<Longrightarrow> may_insert s row"
  "session_role s = bypasses_rls \<Longrightarrow> may_update s row"
  "session_role s = bypasses_rls \<Longrightarrow> may_delete s row"
  by (simp_all add: may_insert_def may_update_def may_delete_def)

lemma may_subject [simp]:
  "session_role s = subject_to_rls \<Longrightarrow> \<not> may_insert s row"
  "session_role s = subject_to_rls \<Longrightarrow> \<not> may_update s row"
  "session_role s = subject_to_rls \<Longrightarrow> \<not> may_delete s row"
  by (simp_all add: may_insert_def may_update_def may_delete_def
      No_direct_leaderboard_inserts_def No_direct_leaderboard_updates_def
      No_direct_leaderboard_deletes_def)

lemma refresh_all_returns:
  "refresh_all_leaderboard s now tie db = Inr db' \<longleftrightarrow>
     session_role s = bypasses_rls \<and> [u \<leftarrow> users db. users_role u = ''student''] = [] \<and>
     db' = db\<lparr>leaderboard := []\<rparr>"
proof (cases "session_role s")
  case subject_to_rls
  then show ?thesis
    by (simp add: refresh_all_leaderboard_def DELETE_FROM_leaderboard_def select_users
        column_reference_def refresh_all_leaderboard_variables_def users_columns_def)
next
  case bypasses_rls
  have "[users_id u. u \<leftarrow> us, users_role u = ''student''] = [] \<longleftrightarrow>
      [u \<leftarrow> us. users_role u = ''student''] = []" for us :: "users_row list"
    by (induction us) simp_all
  with bypasses_rls show ?thesis
    by (auto simp: refresh_all_leaderboard_def DELETE_FROM_leaderboard_def select_users
        refresh_each_raises column_reference_def refresh_all_leaderboard_variables_def
        users_columns_def)
qed


subsection \<open>Project and challenge points\<close>

text \<open>
  C1. \<^verbatim>\<open>calculate_project_points\<close> counts every verified project of the user, whatever its
  tags. For a user whose only project is verified and tagged \<^verbatim>\<open>challenge\<close>, called by a role
  that bypasses row-level security, it returns 100, and \<^verbatim>\<open>calculate_challenge_points\<close>
  returns 80 for the same project: the project counts in both categories, 180 points in
  all, where the rule gives 0 and 80.
\<close>

theorem verified_challenge_project_counts_twice:
  "calculate_project_points service_role challenge_db (Some 1) = Inr 100 \<and>
   calculate_challenge_points service_role challenge_db (Some 1) = Inr 80"
  by code_simp

subsection \<open>Quiz points\<close>

text \<open>
  C2. \<^verbatim>\<open>calculate_quiz_points\<close> returns no count: the comparison of line 226 has a \<^verbatim>\<open>jsonb\<close>
  operand and an \<^verbatim>\<open>integer\<close> operand, no operator \<^verbatim>\<open>=\<close> exists for them, and the function
  raises \<^verbatim>\<open>42883\<close> for every session, database and argument; so it does for student 1 of
  \<open>quiz_db\<close>, who has two correct answers in a completed attempt.
\<close>

theorem calculate_quiz_points_raises_undefined_function:
  "calculate_quiz_points s db u = Inl undefined_function \<and>
   calculate_quiz_points service_role quiz_db (Some 1) = Inl undefined_function"
  by (simp add: quiz_points_raise)

subsection \<open>Triggers\<close>

text \<open>
  C3. An insert or an update of a row of \<^verbatim>\<open>quiz_attempts\<close>, \<^verbatim>\<open>assignments\<close> or \<^verbatim>\<open>projects\<close> fires
  a trigger that calls \<^verbatim>\<open>update_leaderboard()\<close>, and no trigger is on \<^verbatim>\<open>leaderboard\<close>. The
  trigger function raises \<^verbatim>\<open>42703\<close> at its first statement for every row of the three tables
  (each lacks one of the fields \<^verbatim>\<open>student_id\<close>, \<^verbatim>\<open>owner_id\<close>, \<^verbatim>\<open>user_id\<close>), for every session:
  it upserts no leaderboard row, and the exception aborts the statement that fired it.
\<close>

theorem source_table_triggers_raise_undefined_column:
  "list_ex (\<lambda>t. tg_when t None NEW) (triggers_on (TG_TABLE_NAME NEW) INSERT) \<and>
   list_ex (\<lambda>t. tg_when t (Some OLD) NEW) (triggers_on (TG_TABLE_NAME NEW) UPDATE) \<and>
   update_leaderboard s now tie NEW db = Inl undefined_column \<and>
   fire s now tie (triggers_on (TG_TABLE_NAME NEW) INSERT) None NEW db = Inl undefined_column \<and>
   fire s now tie (triggers_on (TG_TABLE_NAME NEW) UPDATE) (Some OLD) NEW db =
     Inl undefined_column \<and>
   triggers_on ''leaderboard'' op = []"
  by (simp add: some_trigger_fires fire_raises trigger_function_raises triggers_on_leaderboard)

subsection \<open>Recomputing twice\<close>


subsection \<open>Access to the leaderboard\<close>

text \<open>
  C6. A client's own statements on the leaderboard change nothing: its insert is refused
  with \<^verbatim>\<open>42501\<close>, its update and its delete find no row that they may touch. But the
  recomputation cannot upsert either, for any session: \<^verbatim>\<open>refresh_user_leaderboard\<close> raises
  \<^verbatim>\<open>42883\<close> and the trigger function \<^verbatim>\<open>update_leaderboard\<close> raises \<^verbatim>\<open>42703\<close>, also for a role
  that bypasses row-level security.
\<close>

theorem no_session_can_recompute:
  "INSERT_INTO_leaderboard (client uid) row db = Inl insufficient_privilege \<and>
   UPDATE_leaderboard (client uid) set_clause where_clause db = Inr db \<and>
   DELETE_FROM_leaderboard (client uid) where_clause db = Inr db \<and>
   refresh_user_leaderboard s now tie u db = Inl undefined_function \<and>
   update_leaderboard s now tie NEW db = Inl undefined_column \<and>
   refresh_user_leaderboard service_role 5 tie (Some 1) one_student_db = Inl undefined_function"
proof -
  have c: "session_role (client uid) = subject_to_rls"
    by (simp add: client_def)
  have "\<not> list_ex (\<lambda>(old, new). lb_user_id new \<noteq> lb_user_id old \<and>
                            lb_user_id new \<notin> set (map users_id (users db))) (zip xs xs)"
    for xs :: "leaderboard_row list"
    by (induction xs) simp_all
  then have "UPDATE_leaderboard (client uid) set_clause where_clause db = Inr db"
    by (simp add: UPDATE_leaderboard_def c Let_def)
  moreover have "DELETE_FROM_leaderboard (client uid) where_clause db = Inr db"
    by (simp add: DELETE_FROM_leaderboard_def c)
  moreover have "INSERT_INTO_leaderboard (client uid) row db = Inl insufficient_privilege"
    by (simp add: INSERT_INTO_leaderboard_def c)
  ultimately show ?thesis
    by (simp add: refresh_raises trigger_function_raises)
qed

subsection \<open>The worked example of the specification\<close>

text \<open>
  C8. For student 1 of \<open>eight_of_ten_db\<close> (one completed attempt with 8 of 10 answers
  correct, one submitted assignment, one verified project that is not a challenge), called
  by a role that bypasses row-level security: \<^verbatim>\<open>calculate_quiz_points\<close> raises \<^verbatim>\<open>42883\<close>,
  \<^verbatim>\<open>calculate_assignment_points\<close> raises \<^verbatim>\<open>42702\<close>, the other two return 100 and 0, and
  \<^verbatim>\<open>refresh_user_leaderboard\<close> raises \<^verbatim>\<open>42883\<close> and writes no row, where the rules give the
  total 128 and the breakdown 8, 20, 100, 0.
\<close>

theorem worked_example_raises_instead_of_128:
  "calculate_quiz_points service_role eight_of_ten_db (Some 1) = Inl undefined_function \<and>
   calculate_assignment_points service_role eight_of_ten_db (Some 1) = Inl ambiguous_column \<and>
   calculate_project_points service_role eight_of_ten_db (Some 1) = Inr 100 \<and>
   calculate_challenge_points service_role eight_of_ten_db (Some 1) = Inr 0 \<and>
   refresh_user_leaderboard service_role 200 (\<lambda>u. u) (Some 1) eight_of_ten_db =
     Inl undefined_function \<and>
   leaderboard (database_after
     (refresh_user_leaderboard service_role 200 (\<lambda>u. u) (Some 1) eight_of_ten_db)
     eight_of_ten_db) = []"
  by code_simp

subsection \<open>Ranking\<close>





lemma rank_rows_ids [simp]: "map lb_user_id (rank_rows tie lb) = map lb_user_id lb"
  by (simp add: rank_rows_def comp_def)

lemma rank_rows_totals [simp]: "map lb_total_points (rank_rows tie lb) = map lb_total_points lb"
  by (simp add: rank_rows_def comp_def)








text \<open>
  Within the two functions the rank statement does not pass its analysis: \<^verbatim>\<open>total_points\<close> is
  a column of \<^verbatim>\<open>leaderboard\<close> and a variable of both functions (and \<^verbatim>\<open>user_id\<close> is the
  parameter of \<^verbatim>\<open>refresh_user_leaderboard\<close>). The properties below are those of the statement
  taken by itself.
\<close>

lemma rank_statement_in_the_functions:
  "UPDATE_leaderboard_SET_rank update_leaderboard_variables s tie db = Inl ambiguous_column"
  "UPDATE_leaderboard_SET_rank refresh_user_leaderboard_variables s tie db = Inl ambiguous_column"
  by (simp_all add: UPDATE_leaderboard_SET_rank_def column_reference_def
      update_leaderboard_variables_def refresh_user_leaderboard_variables_def
      leaderboard_columns_def)





subsection \<open>The life of a leaderboard row\<close>

lemma refresh_all_without_students:
  "refresh_all_leaderboard service_role 9 (\<lambda>u. u) (mentor_db [entry 3 100 None]) =
     Inr (mentor_db [])"
  by code_simp

text \<open>
  C7 (as amended). A recomputation for one user, by \<^verbatim>\<open>refresh_user_leaderboard\<close> or by the
  trigger function, deletes no leaderboard row. Rows are deleted by the cascade of deleting
  their user, and by \<^verbatim>\<open>refresh_all_leaderboard\<close>, which clears the table first: when it
  returns, the users are as before and no row of a user who is not a student is left.
\<close>

theorem rows_are_deleted_by_refresh_all_too:
  "set (leaderboard db) \<subseteq>
     set (leaderboard (database_after (refresh_user_leaderboard s now tie v db) db)) \<and>
   set (leaderboard db) \<subseteq>
     set (leaderboard (database_after (update_leaderboard s now tie NEW db) db)) \<and>
   (refresh_all_leaderboard s now tie db = Inr db3 \<longrightarrow>
      users db3 = users db \<and>
      list_all (\<lambda>row. list_ex (\<lambda>x. users_id x = lb_user_id row \<and> users_role x = ''student'')
                         (users db))
        (leaderboard db3)) \<and>
   leaderboard (DELETE_FROM_users uid db) = [row \<leftarrow> leaderboard db. lb_user_id row \<noteq> uid]"
  by (auto simp: refresh_raises trigger_function_raises database_after_def
      refresh_all_returns DELETE_FROM_users_def Let_def)

theorem rows_are_deleted_by_refresh_all_too_witness:
  "refresh_all_leaderboard service_role 9 (\<lambda>u. u) (mentor_db [entry 3 100 None]) =
     Inr (mentor_db []) \<and>
   users (mentor_db []) = users (mentor_db [entry 3 100 None]) \<and>
   leaderboard (DELETE_FROM_users 3 (mentor_db [entry 3 100 None])) = []"
proof -
  from rows_are_deleted_by_refresh_all_too
    [where s = service_role and now = 9 and tie = "\<lambda>u. u"
       and db = "mentor_db [entry 3 100 None]" and ?db3.0 = "mentor_db []" and uid = 3]
    refresh_all_without_students
  have "users (mentor_db []) = users (mentor_db [entry 3 100 None])"
    and "leaderboard (DELETE_FROM_users 3 (mentor_db [entry 3 100 None])) =
      [row \<leftarrow> leaderboard (mentor_db [entry 3 100 None]). lb_user_id row \<noteq> 3]"
    by blast+
  with refresh_all_without_students show ?thesis
    by (simp add: mentor_db_def entry_def)
qed

text \<open>
  C7, counterexample: the only user is a mentor, who has a leaderboard row (inserted by a
  role that bypasses row-level security). \<^verbatim>\<open>refresh_all_leaderboard\<close>, called by such a role,
  returns and the row is gone, while the user is still there.
\<close>

theorem refresh_all_deletes_the_row_of_a_user_who_is_not_a_student:
  "INSERT_INTO_leaderboard service_role (entry 3 100 None) (mentor_db []) =
     Inr (mentor_db [entry 3 100 None]) \<and>
   refresh_all_leaderboard service_role 9 (\<lambda>u. u) (mentor_db [entry 3 100 None]) =
     Inr (mentor_db []) \<and>
   map users_id (users (mentor_db [])) = [3] \<and>
   leaderboard (mentor_db []) = []"
  by code_simp

subsection \<open>The total and its breakdown\<close>






subsection \<open>The AI call wrapper: retries and fallback\<close>

lemma callAI_loop_attempts:
  "ai_attempts (callAI_loop base provider left made waits) \<le> made + left"
proof (induction left arbitrary: made waits)
  case 0
  then show ?case by simp
next
  case (Suc left)
  show ?case
    using Suc [of "Suc made"] by (cases "provider (Suc made)") simp_all
qed

lemma callAI_all_fail:
  assumes "\<not> is_success (provider 1)" "\<not> is_success (provider 2)" "\<not> is_success (provider 3)"
  shows "callAI base provider =
     \<lparr>ai_result = Inl attempts_exhausted, ai_attempts = 3, ai_backoffs = [base, 2 * base]\<rparr>"
proof -
  have fail: "(case p of succeeded x \<Rightarrow> f x | _ \<Rightarrow> d) = d" if "\<not> is_success p"
    for p :: "'a attempt_result" and f :: "'a \<Rightarrow> 'b" and d
    using that by (cases p) simp_all
  have 1: "\<not> is_success (provider (Suc 0))" using assms(1) by simp
  have 2: "\<not> is_success (provider (Suc (Suc 0)))" using assms(2) by (simp add: numeral_2_eq_2)
  have 3: "\<not> is_success (provider (Suc (Suc (Suc 0))))" using assms(3) by (simp add: numeral_3_eq_3)
  show ?thesis
    by (simp add: callAI_def max_attempts_def numeral_3_eq_3 fail [OF 1] fail [OF 2] fail [OF 3])
qed

text \<open>
  C9. When the first three attempts fail (by timeout, status or payload), \<^verbatim>\<open>callAI\<close> makes
  exactly 3 attempts, waits \<open>base\<close> and then \<open>2 * base\<close> between them, and returns the typed
  failure; grading then reports no AI grading and a basic score equal to the number of
  submitted answers that match the correct indices. No call makes more than 3 attempts.
\<close>

theorem callAI_gives_up_after_three_attempts:
  assumes "\<not> is_success (provider 1)" "\<not> is_success (provider 2)" "\<not> is_success (provider 3)"
  shows "callAI base provider =
       \<lparr>ai_result = Inl attempts_exhausted, ai_attempts = 3, ai_backoffs = [base, 2 * base]\<rparr> \<and>
     gradeQuiz base provider answers correct_indices =
       \<lparr>aiGrading = None,
        basicScore = length [() . (a, c) \<leftarrow> zip answers correct_indices, a = c],
        correctAnswers = length [() . (a, c) \<leftarrow> zip answers correct_indices, a = c],
        totalQuestions = length correct_indices\<rparr> \<and>
     ai_attempts (callAI base provider') \<le> 3"
proof -
  have "ai_attempts (callAI base provider') \<le> 3"
    using callAI_loop_attempts [of base provider' max_attempts 0 "[]"]
    by (simp add: callAI_def max_attempts_def)
  then show ?thesis
    by (simp add: gradeQuiz_def basic_score_def callAI_all_fail [OF assms])
qed

theorem callAI_gives_up_after_three_attempts_witness:
  "callAI 1000 (\<lambda>k. timed_out :: string attempt_result) =
       \<lparr>ai_result = Inl attempts_exhausted, ai_attempts = 3, ai_backoffs = [1000, 2000]\<rparr> \<and>
   gradeQuiz 1000 (\<lambda>k. timed_out :: string attempt_result) [0, 2, 1] [0, 2, 3] =
       \<lparr>aiGrading = None, basicScore = 2, correctAnswers = 2, totalQuestions = 3\<rparr>"
  using callAI_gives_up_after_three_attempts
    [where provider = "\<lambda>k. timed_out :: string attempt_result" and base = 1000
       and answers = "[0, 2, 1]" and correct_indices = "[0, 2, 3]"
       and provider' = "\<lambda>k. timed_out :: string attempt_result"]
  by (simp add: numeral_2_eq_2 numeral_3_eq_3)

end
